theory Spec2Isabelle
  imports Main
begin

section \<open>Python values, exceptions and string conversion\<close>

text \<open>
  The module \<^verbatim>\<open>knows/output_format.py\<close> renders a graph as text. Everything it
  prints goes through an f-string, that is through the \<^verbatim>\<open>__format__\<close> method of the
  value with an empty format specification. Node identifiers and attribute values are
  arbitrary Python objects, so the model has the built-in kinds the serialiser is meant
  for (strings, integers, floats, booleans) and one constructor for any other object,
  which carries what its conversion does: it returns a string or raises. A float is given
  by its \<^verbatim>\<open>repr\<close>, the text its conversion returns (the \<^verbatim>\<open>repr\<close> of a float reads back as the
  same float, so it identifies the float). A Python string is modelled as a list of
  characters.

  The exceptions: the \<^verbatim>\<open>KeyError\<close> of a dictionary lookup, with the key; the
  \<^verbatim>\<open>ValueError\<close> that CPython raises when an integer with too many digits is converted to
  a string (its message is not modelled); an exception raised by the conversion method of
  an object, with its text.
\<close>

datatype pyerror =
    KeyError string
  | ValueError
  | Raised string

datatype pyval =
    PStr string
  | PInt int
  | PFloat string
  | PBool bool
  | PObj "pyerror + string"

fun str_nat :: "nat \<Rightarrow> string" where
  "str_nat n =
     (if n < 10 then [''0123456789'' ! n]
      else str_nat (n div 10) @ [''0123456789'' ! (n mod 10)])"

declare str_nat.simps [simp del]

definition str_int :: "int \<Rightarrow> string" where
  "str_int i = (if i < 0 then CHR ''-'' # str_nat (nat (- i)) else str_nat (nat i))"

text \<open>
  The conversion of an integer to decimal text is limited: CPython converts an integer of
  at most \<^verbatim>\<open>sys.get_int_max_str_digits()\<close> digits, 4300 unless the limit is changed, and
  raises \<^verbatim>\<open>ValueError\<close> for an integer with more digits.
\<close>

definition int_max_str_digits :: nat where
  "int_max_str_digits = 4300"

definition format_int :: "int \<Rightarrow> pyerror + string" where
  "format_int i = (if \<bar>i\<bar> < 10 ^ int_max_str_digits then Inr (str_int i) else Inl ValueError)"

text \<open>\<^verbatim>\<open>f"{value}"\<close>: the text of a value, or the exception its conversion raises.\<close>

fun py_format :: "pyval \<Rightarrow> pyerror + string" where
  "py_format (PStr s) = Inr s"
| "py_format (PInt i) = format_int i"
| "py_format (PFloat r) = Inr r"
| "py_format (PBool b) = Inr (if b then ''True'' else ''False'')"
| "py_format (PObj r) = r"

text \<open>\<^verbatim>\<open>sep.join(xs)\<close>.\<close>

fun join :: "string \<Rightarrow> string list \<Rightarrow> string" where
  "join sep [] = []"
| "join sep [x] = x"
| "join sep (x # y # ys) = x @ sep @ join sep (y # ys)"

text \<open>
  A list comprehension \<^verbatim>\<open>[f(x) for x in xs]\<close> whose body may raise: the elements are
  evaluated in order and the first exception ends the comprehension.
\<close>

fun collect :: "('a \<Rightarrow> pyerror + 'b) \<Rightarrow> 'a list \<Rightarrow> pyerror + 'b list" where
  "collect f [] = Inr []"
| "collect f (x # xs) =
     (case f x of
        Inl e \<Rightarrow> Inl e
      | Inr y \<Rightarrow> (case collect f xs of Inl e \<Rightarrow> Inl e | Inr ys \<Rightarrow> Inr (y # ys)))"

section \<open>The graph as the serialiser reads it\<close>

text \<open>
  An attribute dictionary is the list of its items in insertion order (the keys of a
  dictionary are distinct; they are strings here, as in the attribute maps of the
  specification). The serialiser reads the graph only through
  \<^verbatim>\<open>nodes(data=True)\<close> and \<^verbatim>\<open>edges(data=True)\<close>; the graph is the two sequences these
  iterators yield.
\<close>

type_synonym attrs = "(string \<times> pyval) list"

record graph =
  nodes :: "(pyval \<times> attrs) list"
  edges :: "(pyval \<times> pyval \<times> attrs) list"

text \<open>\<^verbatim>\<open>d.get(k, default)\<close>.\<close>

definition dict_get :: "attrs \<Rightarrow> string \<Rightarrow> pyval \<Rightarrow> pyval" where
  "dict_get d k dflt = (case map_of d k of None \<Rightarrow> dflt | Some v \<Rightarrow> v)"

section \<open>Node and edge terms\<close>

text \<open>\<^verbatim>\<open>f'"{key}": "{value}"'\<close>, the body of the property-list comprehension.\<close>

definition format_entry :: "string \<times> pyval \<Rightarrow> pyerror + string" where
  "format_entry kv =
     (case kv of (key, val) \<Rightarrow>
        (case py_format val of
           Inl e \<Rightarrow> Inl e
         | Inr s \<Rightarrow> Inr (''\"'' @ key @ ''\": \"'' @ s @ ''\"'')))"

text \<open>
  \<^verbatim>\<open>[f'"{key}": "{value}"' for key, value in attributes.items() if key != 'label']\<close>
\<close>

definition prop_entries :: "attrs \<Rightarrow> pyerror + string list" where
  "prop_entries attributes =
     collect format_entry (filter (\<lambda>(key, val). key \<noteq> ''label'') attributes)"

text \<open>\<^verbatim>\<open>prop_list = ', '.join([...])\<close>\<close>

definition prop_list :: "attrs \<Rightarrow> pyerror + string" where
  "prop_list attributes =
     (case prop_entries attributes of Inl e \<Rightarrow> Inl e | Inr es \<Rightarrow> Inr (join '', '' es))"

text \<open>
  \<^verbatim>\<open>_format_node_yarspg\<close>. The property list is computed before the f-string of the
  result, which converts \<^verbatim>\<open>node_id\<close> and then \<^verbatim>\<open>label\<close>.
\<close>

definition format_node_yarspg :: "pyval \<times> attrs \<Rightarrow> pyerror + string" where
  "format_node_yarspg node =
     (case node of (node_id, attributes) \<Rightarrow>
        let label = dict_get attributes ''label'' (PStr ''label'') in
        (case prop_list attributes of
           Inl e \<Rightarrow> Inl e
         | Inr props \<Rightarrow>
            (case py_format node_id of
               Inl e \<Rightarrow> Inl e
             | Inr n \<Rightarrow>
                (case py_format label of
                   Inl e \<Rightarrow> Inl e
                 | Inr l \<Rightarrow> Inr (''('' @ n @ '' {\"'' @ l @ ''\"}['' @ props @ ''])'')))))"

text \<open>\<^verbatim>\<open>_format_edge_yarspg\<close>: the f-string converts \<^verbatim>\<open>u\<close>, \<^verbatim>\<open>label\<close>, \<^verbatim>\<open>v\<close>.\<close>

definition format_edge_yarspg :: "pyval \<times> pyval \<times> attrs \<Rightarrow> pyerror + string" where
  "format_edge_yarspg edge =
     (case edge of (u, v, attributes) \<Rightarrow>
        let label = dict_get attributes ''label'' (PStr ''label'') in
        (case prop_list attributes of
           Inl e \<Rightarrow> Inl e
         | Inr props \<Rightarrow>
            (case py_format u of
               Inl e \<Rightarrow> Inl e
             | Inr us \<Rightarrow>
                (case py_format label of
                   Inl e \<Rightarrow> Inl e
                 | Inr l \<Rightarrow>
                    (case py_format v of
                       Inl e \<Rightarrow> Inl e
                     | Inr vs \<Rightarrow>
                        Inr (''('' @ us @ '')-({\"'' @ l @ ''\"}['' @ props @ ''])->('' @ vs @ '')''))))))"

text \<open>The dictionaries that the RDF variants put in the place of the real attributes.\<close>

definition rdf_node_attributes :: attrs where
  "rdf_node_attributes =
     [(''label'', PStr ''IRI''), (''@value'', PStr ''https://w3id.org/MON/person.owl#Person'')]"

definition rdf_edge_attributes :: attrs where
  "rdf_edge_attributes =
     [(''label'', PStr ''IRI''), (''@value'', PStr ''https://w3id.org/MON/person.owl#friendOf'')]"

text \<open>\<^verbatim>\<open>_format_node_yarspg_rdf\<close>: \<^verbatim>\<open>node_id = node[0]\<close>, the attributes are the fixed ones.\<close>

definition format_node_yarspg_rdf :: "pyval \<times> attrs \<Rightarrow> pyerror + string" where
  "format_node_yarspg_rdf node =
     (let node_id = fst node;
          attributes = rdf_node_attributes;
          label = dict_get attributes ''label'' (PStr ''label'') in
      (case prop_list attributes of
         Inl e \<Rightarrow> Inl e
       | Inr props \<Rightarrow>
          (case py_format node_id of
             Inl e \<Rightarrow> Inl e
           | Inr n \<Rightarrow>
              (case py_format label of
                 Inl e \<Rightarrow> Inl e
               | Inr l \<Rightarrow> Inr (''('' @ n @ '' {\"'' @ l @ ''\"}['' @ props @ ''])'')))))"

text \<open>\<^verbatim>\<open>_format_edge_yarspg_rdf\<close>: \<^verbatim>\<open>u, v = edge[:2]\<close>.\<close>

definition format_edge_yarspg_rdf :: "pyval \<times> pyval \<times> attrs \<Rightarrow> pyerror + string" where
  "format_edge_yarspg_rdf edge =
     (let u = fst edge;
          v = fst (snd edge);
          attributes = rdf_edge_attributes;
          label = dict_get attributes ''label'' (PStr ''label'') in
      (case prop_list attributes of
         Inl e \<Rightarrow> Inl e
       | Inr props \<Rightarrow>
          (case py_format u of
             Inl e \<Rightarrow> Inl e
           | Inr us \<Rightarrow>
              (case py_format label of
                 Inl e \<Rightarrow> Inl e
               | Inr l \<Rightarrow>
                  (case py_format v of
                     Inl e \<Rightarrow> Inl e
                   | Inr vs \<Rightarrow>
                      Inr (''('' @ us @ '')-({\"'' @ l @ ''\"}['' @ props @ ''])->('' @ vs @ '')''))))))"

section \<open>Documents\<close>

text \<open>\<^verbatim>\<open>_to_yarspg\<close>: all node terms are built first, then all edge terms.\<close>

definition to_yarspg :: "graph \<Rightarrow> pyerror + string" where
  "to_yarspg g =
     (case collect format_node_yarspg (nodes g) of
        Inl e \<Rightarrow> Inl e
      | Inr nodes_output \<Rightarrow>
         (case collect format_edge_yarspg (edges g) of
            Inl e \<Rightarrow> Inl e
          | Inr edges_output \<Rightarrow> Inr (join ''\<newline>'' (nodes_output @ edges_output))))"

text \<open>\<^verbatim>\<open>_to_yarspg_rdf\<close>\<close>

definition to_yarspg_rdf :: "graph \<Rightarrow> pyerror + string" where
  "to_yarspg_rdf g =
     (let nodes_section = ''# Nodes\<newline>'';
          edges_section = ''\<newline># Edges\<newline>'' in
      (case collect format_node_yarspg_rdf (nodes g) of
         Inl e \<Rightarrow> Inl e
       | Inr nodes_output \<Rightarrow>
          (case collect format_edge_yarspg_rdf (edges g) of
             Inl e \<Rightarrow> Inl e
           | Inr edges_output \<Rightarrow>
              let nodes_output_str = join ''\<newline>'' nodes_output;
                  edges_output_str = join ''\<newline>'' edges_output in
              Inr (nodes_section @ nodes_output_str @ edges_section @ edges_output_str))))"

section \<open>Dispatch\<close>

text \<open>
  The other eight formats are produced by the graph library and by the drawing class,
  which are not part of this module: the generators are parameters of the model. Each
  yields the lines (or the text) it produces for a graph, or raises.
\<close>

record codecs =
  generate_graphml :: "graph \<Rightarrow> pyerror + string list"
  generate_gexf :: "graph \<Rightarrow> pyerror + string list"
  generate_gml :: "graph \<Rightarrow> pyerror + string list"
  generate_adjlist :: "graph \<Rightarrow> pyerror + string list"
  generate_multiline_adjlist :: "graph \<Rightarrow> pyerror + string list"
  generate_edgelist :: "graph \<Rightarrow> pyerror + string list"
  node_link_json :: "graph \<Rightarrow> pyerror + string"
  draw_to_buffer :: "graph \<Rightarrow> pyerror + string"

text \<open>\<^verbatim>\<open>'\n'.join(generate(G))\<close>, the body of the six library-backed renderers.\<close>

definition join_lines :: "(graph \<Rightarrow> pyerror + string list) \<Rightarrow> graph \<Rightarrow> pyerror + string" where
  "join_lines generate g =
     (case generate g of Inl e \<Rightarrow> Inl e | Inr ls \<Rightarrow> Inr (join ''\<newline>'' ls))"

text \<open>The dictionary \<^verbatim>\<open>format_methods\<close> of \<^verbatim>\<open>to_format\<close>, in the order it is written.\<close>

definition format_methods :: "codecs \<Rightarrow> (string \<times> (graph \<Rightarrow> pyerror + string)) list" where
  "format_methods lib =
     [(''graphml'', join_lines (generate_graphml lib)),
      (''yarspg'', to_yarspg),
      (''yarspg-rdf'', to_yarspg_rdf),
      (''gexf'', join_lines (generate_gexf lib)),
      (''gml'', join_lines (generate_gml lib)),
      (''svg'', draw_to_buffer lib),
      (''adjacency_list'', join_lines (generate_adjlist lib)),
      (''multiline_adjacency_list'', join_lines (generate_multiline_adjlist lib)),
      (''edge_list'', join_lines (generate_edgelist lib)),
      (''json'', node_link_json lib)]"

text \<open>
  \<^verbatim>\<open>return format_methods[format_type]()\<close>: subscripting with a key that is not in
  the dictionary raises \<^verbatim>\<open>KeyError(format_type)\<close>.
\<close>

definition to_format :: "codecs \<Rightarrow> graph \<Rightarrow> string \<Rightarrow> pyerror + string" where
  "to_format lib g format_type =
     (case map_of (format_methods lib) format_type of
        None \<Rightarrow> Inl (KeyError format_type)
      | Some method \<Rightarrow> method g)"

text \<open>The names the claims call supported: the keys of \<open>format_methods\<close>.\<close>

definition supported_formats :: "string list" where
  "supported_formats =
     [''graphml'', ''yarspg'', ''yarspg-rdf'', ''gexf'', ''gml'', ''svg'', ''adjacency_list'',
      ''multiline_adjacency_list'', ''edge_list'', ''json'']"

text \<open>
  A library whose generators produce nothing, for evaluating \<open>to_format\<close> on concrete
  inputs; the two YARS-PG renderers never call the library.
\<close>

definition null_codecs :: codecs where
  "null_codecs =
     \<lparr> generate_graphml = (\<lambda>g. Inr []), generate_gexf = (\<lambda>g. Inr []),
       generate_gml = (\<lambda>g. Inr []), generate_adjlist = (\<lambda>g. Inr []),
       generate_multiline_adjlist = (\<lambda>g. Inr []), generate_edgelist = (\<lambda>g. Inr []),
       node_link_json = (\<lambda>g. Inr []), draw_to_buffer = (\<lambda>g. Inr []) \<rparr>"

section \<open>The scenario of the specification\<close>

definition scenario :: graph where
  "scenario =
     \<lparr> nodes = [(PInt 1, [(''label'', PStr ''Person''), (''name'', PStr ''Alice'')]),
                (PInt 2, [])],
       edges = [(PInt 1, PInt 2, [(''label'', PStr ''knows'')])] \<rparr>"

section \<open>Vocabulary of the claims\<close>

text \<open>
  The claims speak of the lines of a document: \<^verbatim>\<open>s.split(sep)\<close> with a separator of one
  character gives the pieces between the separators, so the empty string has one
  (empty) piece.
\<close>

fun split_char :: "char \<Rightarrow> string \<Rightarrow> string list" where
  "split_char c [] = [[]]"
| "split_char c (x # xs) =
     (if x = c then [] # split_char c xs
      else (case split_char c xs of [] \<Rightarrow> [[x]] | l # ls \<Rightarrow> (x # l) # ls))"

definition split_lines :: "string \<Rightarrow> string list" where
  "split_lines s = split_char CHR ''\<newline>'' s"

text \<open>
  A text without a newline character; a value whose conversion returns such a text; an
  attribute dictionary whose keys and values are such; a graph all of whose identifiers and
  attributes are such; a graph whose identifiers are such.
\<close>

definition nl_free :: "string \<Rightarrow> bool" where
  "nl_free s = (CHR ''\<newline>'' \<notin> set s)"

definition renders_nl_free :: "pyval \<Rightarrow> bool" where
  "renders_nl_free v = (case py_format v of Inl e \<Rightarrow> False | Inr s \<Rightarrow> nl_free s)"

definition attrs_nl_free :: "attrs \<Rightarrow> bool" where
  "attrs_nl_free a = list_all (\<lambda>(key, val). nl_free key \<and> renders_nl_free val) a"

definition graph_nl_free :: "graph \<Rightarrow> bool" where
  "graph_nl_free g =
     (list_all (\<lambda>(n, a). renders_nl_free n \<and> attrs_nl_free a) (nodes g)
      \<and> list_all (\<lambda>(u, v, a). renders_nl_free u \<and> renders_nl_free v \<and> attrs_nl_free a) (edges g))"

definition ids_nl_free :: "graph \<Rightarrow> bool" where
  "ids_nl_free g =
     (list_all (\<lambda>(n, a). renders_nl_free n) (nodes g)
      \<and> list_all (\<lambda>(u, v, a). renders_nl_free u \<and> renders_nl_free v) (edges g))"



text \<open>
  A value whose conversion returns a string; a graph all of whose identifiers and
  attribute values are such; a graph whose identifiers are such; all the values a graph
  holds, identifiers and attribute values.
\<close>

definition converts :: "pyval \<Rightarrow> bool" where
  "converts v = (case py_format v of Inl e \<Rightarrow> False | Inr s \<Rightarrow> True)"

definition graph_converts :: "graph \<Rightarrow> bool" where
  "graph_converts g =
     (list_all (\<lambda>(n, a). converts n \<and> list_all (\<lambda>(key, val). converts val) a) (nodes g)
      \<and> list_all (\<lambda>(u, v, a). converts u \<and> converts v \<and> list_all (\<lambda>(key, val). converts val) a)
          (edges g))"

definition ids_convert :: "graph \<Rightarrow> bool" where
  "ids_convert g =
     (list_all (\<lambda>(n, a). converts n) (nodes g)
      \<and> list_all (\<lambda>(u, v, a). converts u \<and> converts v) (edges g))"

definition graph_values :: "graph \<Rightarrow> pyval list" where
  "graph_values g =
     concat (map (\<lambda>(n, a). n # map snd a) (nodes g))
     @ concat (map (\<lambda>(u, v, a). u # v # map snd a) (edges g))"

text \<open>
  The property-list formatter in the words of the specification: it goes through the
  entries in insertion order, skips an entry whose key is the excluded key, emits
  \<^verbatim>\<open>"key": "value"\<close> for each other entry and puts a comma and a space between emitted
  entries; with no entry left the result is the empty string.
\<close>

fun spec_format :: "attrs \<Rightarrow> string \<Rightarrow> pyerror + string" where
  "spec_format [] excludeKey = Inr []"
| "spec_format ((key, val) # rest) excludeKey =
     (if key = excludeKey then spec_format rest excludeKey
      else (case py_format val of
              Inl e \<Rightarrow> Inl e
            | Inr s \<Rightarrow>
               (case spec_format rest excludeKey of
                  Inl e \<Rightarrow> Inl e
                | Inr r \<Rightarrow>
                   Inr (''\"'' @ key @ ''\": \"'' @ s @ ''\"'' @ (if r = [] then [] else '', '' @ r)))))"

text \<open>
  Concrete graphs: the empty graph; a node whose attribute value holds a newline; a node
  whose identifier holds a newline and the text of a header; the scenario's topology with
  other attributes; a node with one attribute, under a given key, whose conversion raises;
  a node with one attribute, under a given key, that is the least integer over the digit
  limit; a graph with nodes only and one with edges only.
\<close>

definition empty_graph :: graph where
  "empty_graph = \<lparr>nodes = [], edges = []\<rparr>"

definition newline_value_graph :: graph where
  "newline_value_graph = \<lparr>nodes = [(PInt 1, [(''name'', PStr ''a\<newline>b'')])], edges = []\<rparr>"

definition header_id_graph :: graph where
  "header_id_graph = \<lparr>nodes = [(PStr ''x\<newline># Nodes\<newline>y'', [])], edges = []\<rparr>"

definition scenario_other_attrs :: graph where
  "scenario_other_attrs =
     \<lparr> nodes = [(PInt 1, [(''age'', PInt 42)]), (PInt 2, [(''label'', PStr ''City'')])],
       edges = [(PInt 1, PInt 2, [(''since'', PObj (Inl (Raised ''boom'')))])] \<rparr>"

definition failing_value_graph :: "string \<Rightarrow> graph" where
  "failing_value_graph key = \<lparr>nodes = [(PInt 1, [(key, PObj (Inl (Raised ''boom'')))])], edges = []\<rparr>"

definition big_int_graph :: "string \<Rightarrow> graph" where
  "big_int_graph key = \<lparr>nodes = [(PInt 1, [(key, PInt (10 ^ int_max_str_digits))])], edges = []\<rparr>"

definition nodes_only_graph :: graph where
  "nodes_only_graph = \<lparr>nodes = [(PInt 1, []), (PInt 2, [(''name'', PStr ''Bob'')])], edges = []\<rparr>"

definition edges_only_graph :: graph where
  "edges_only_graph = \<lparr>nodes = [], edges = [(PInt 1, PInt 2, []), (PInt 2, PInt 1, [])]\<rparr>"

section \<open>Evaluation of the scenario\<close>

lemma ten_le_limit: "(10::int) \<le> 10 ^ int_max_str_digits"
proof -
  have "(1::nat) \<le> int_max_str_digits" by (simp add: int_max_str_digits_def)
  then have "(10::int) ^ 1 \<le> 10 ^ int_max_str_digits" by (rule power_increasing) simp
  then show ?thesis by simp
qed

lemma format_int_small: "\<bar>i\<bar> < 10 \<Longrightarrow> format_int i = Inr (str_int i)"
proof -
  assume "\<bar>i\<bar> < 10"
  with ten_le_limit have "\<bar>i\<bar> < 10 ^ int_max_str_digits" by linarith
  then show ?thesis by (simp add: format_int_def)
qed

lemma format_int_over_limit: "10 ^ int_max_str_digits \<le> \<bar>i\<bar> \<Longrightarrow> format_int i = Inl ValueError"
  by (simp add: format_int_def)

lemma format_int_1: "format_int 1 = Inr ''1''"
  by (simp add: format_int_small str_int_def str_nat.simps)

lemma format_int_2: "format_int 2 = Inr ''2''"
  by (simp add: format_int_small str_int_def str_nat.simps)

lemma scenario_yarspg:
  "to_yarspg scenario =
     Inr ''(1 {\"Person\"}[\"name\": \"Alice\"])\<newline>(2 {\"label\"}[])\<newline>(1)-({\"knows\"}[])->(2)''"
  by (simp add: to_yarspg_def scenario_def format_node_yarspg_def format_edge_yarspg_def
      prop_list_def prop_entries_def format_entry_def dict_get_def format_int_1 format_int_2)

lemma scenario_yarspg_rdf:
  "to_yarspg_rdf scenario =
     Inr ''# Nodes\<newline>(1 {\"IRI\"}[\"@value\": \"https://w3id.org/MON/person.owl#Person\"])\<newline>(2 {\"IRI\"}[\"@value\": \"https://w3id.org/MON/person.owl#Person\"])\<newline># Edges\<newline>(1)-({\"IRI\"}[\"@value\": \"https://w3id.org/MON/person.owl#friendOf\"])->(2)''"
  by (simp add: to_yarspg_rdf_def scenario_def format_node_yarspg_rdf_def
      format_edge_yarspg_rdf_def rdf_node_attributes_def rdf_edge_attributes_def
      prop_list_def prop_entries_def format_entry_def dict_get_def format_int_1 format_int_2)

subsection \<open>Dispatch on the two YARS-PG names\<close>

lemma to_format_yarspg: "to_format lib g ''yarspg'' = to_yarspg g"
  by (simp add: to_format_def format_methods_def)

lemma to_format_yarspg_rdf: "to_format lib g ''yarspg-rdf'' = to_yarspg_rdf g"
  by (simp add: to_format_def format_methods_def)

lemma format_methods_keys: "map fst (format_methods lib) = supported_formats"
  by (simp add: format_methods_def supported_formats_def)

text \<open>
  Claim C1. For the graph with node 1 carrying label "Person" and name "Alice", node 2
  without attributes and the edge (1, 2) labelled "knows", the format "yarspg" gives
  exactly the three terms of the specification's scenario, and "yarspg-rdf" gives exactly
  its sectioned document with the fixed IRI properties.
\<close>

theorem scenario_to_format:
  "to_format lib scenario ''yarspg'' =
     Inr ''(1 {\"Person\"}[\"name\": \"Alice\"])\<newline>(2 {\"label\"}[])\<newline>(1)-({\"knows\"}[])->(2)''
   \<and> to_format lib scenario ''yarspg-rdf'' =
     Inr ''# Nodes\<newline>(1 {\"IRI\"}[\"@value\": \"https://w3id.org/MON/person.owl#Person\"])\<newline>(2 {\"IRI\"}[\"@value\": \"https://w3id.org/MON/person.owl#Person\"])\<newline># Edges\<newline>(1)-({\"IRI\"}[\"@value\": \"https://w3id.org/MON/person.owl#friendOf\"])->(2)''"
  by (simp only: to_format_yarspg to_format_yarspg_rdf scenario_yarspg scenario_yarspg_rdf
      simp_thms)

text \<open>
  Claim C7. A format name outside the ten supported names makes \<open>to_format\<close> fail with
  the key error of the dictionary lookup, carrying the name; no renderer runs and there
  is no output.
\<close>

theorem unknown_format_key_error:
  assumes "format_type \<notin> set supported_formats"
  shows "to_format lib g format_type = Inl (KeyError format_type)"
  using assms by (simp add: to_format_def format_methods_def supported_formats_def)

theorem unknown_format_key_error_witness:
  "''unknown'' \<notin> set supported_formats
   \<and> to_format null_codecs scenario ''unknown'' = Inl (KeyError ''unknown'')"
  using unknown_format_key_error [of "''unknown''" null_codecs scenario]
  by (simp add: supported_formats_def)

text \<open>
  Claim C8. The graph without nodes and edges is rendered without failure: "yarspg"
  gives the empty string, "yarspg-rdf" gives the two headers with nothing under them.
\<close>

theorem empty_graph_to_format:
  "to_format lib \<lparr>nodes = [], edges = []\<rparr> ''yarspg'' = Inr []
   \<and> to_format lib \<lparr>nodes = [], edges = []\<rparr> ''yarspg-rdf'' = Inr ''# Nodes\<newline>\<newline># Edges\<newline>''"
  by (simp add: to_format_yarspg to_format_yarspg_rdf to_yarspg_def to_yarspg_rdf_def)

section \<open>Comprehensions, joining and splitting\<close>

lemma collect_Inr_all2:
  "collect f xs = Inr ys \<Longrightarrow> list_all2 (\<lambda>x y. f x = Inr y) xs ys"
  by (induction xs arbitrary: ys) (auto split: sum.splits)

lemma all2_collect_Inr:
  "list_all2 (\<lambda>x y. f x = Inr y) xs ys \<Longrightarrow> collect f xs = Inr ys"
  by (induction xs ys rule: list_all2_induct) auto

lemma collect_Inl_elem: "collect f xs = Inl e \<Longrightarrow> \<exists>x\<in>set xs. f x = Inl e"
  by (induction xs) (auto split: sum.splits)

lemma collect_fails: "x \<in> set xs \<Longrightarrow> f x = Inl e \<Longrightarrow> \<exists>e'. collect f xs = Inl e'"
  by (induction xs) (auto split: sum.splits)

lemma collect_total:
  "\<forall>x\<in>set xs. \<exists>y. f x = Inr y \<and> P y \<Longrightarrow> \<exists>ys. collect f xs = Inr ys \<and> (\<forall>y\<in>set ys. P y)"
  by (induction xs) (auto split: sum.splits)



lemma collect_shape:
  "collect f xs = Inr ys \<Longrightarrow> (\<And>x y. f x = Inr y \<Longrightarrow> P y) \<Longrightarrow> \<forall>y\<in>set ys. P y"
  by (induction xs arbitrary: ys) (auto split: sum.splits)

lemma all2_nth:
  "list_all2 (\<lambda>x y. f x = Inr y) xs ys \<Longrightarrow> i < length xs \<Longrightarrow> f (xs ! i) = Inr (ys ! i)"
  by (simp add: list_all2_conv_all_nth)

lemma join_Cons: "join sep (x # xs) = (if xs = [] then x else x @ sep @ join sep xs)"
  by (cases xs) simp_all

lemma join_nonempty: "xs \<noteq> [] \<Longrightarrow> \<forall>x\<in>set xs. x \<noteq> [] \<Longrightarrow> join sep xs \<noteq> []"
  by (induction sep xs rule: join.induct) auto

lemma join_ends:
  "xs \<noteq> [] \<Longrightarrow> \<forall>x\<in>set xs. x \<noteq> [] \<and> hd x = a \<and> last x = b \<Longrightarrow>
   join sep xs \<noteq> [] \<and> hd (join sep xs) = a \<and> last (join sep xs) = b"
  by (induction sep xs rule: join.induct) auto

lemma split_char_no_sep: "c \<notin> set s \<Longrightarrow> split_char c s = [s]"
  by (induction s) auto

lemma split_char_append: "c \<notin> set a \<Longrightarrow> split_char c (a @ c # b) = a # split_char c b"
  by (induction a) auto

lemma split_char_join:
  "xs \<noteq> [] \<Longrightarrow> \<forall>x\<in>set xs. c \<notin> set x \<Longrightarrow> split_char c (join [c] xs) = xs"
proof (induction "[c]" xs rule: join.induct)
  case 1 then show ?case by simp
next
  case (2 x) then show ?case by (simp add: split_char_no_sep)
next
  case (3 x y ys)
  then show ?case by (simp add: split_char_append)
qed

lemma split_char_join_then:
  "\<forall>x\<in>set xs. c \<notin> set x \<Longrightarrow>
   split_char c (join [c] xs @ c # b) = (if xs = [] then [[]] else xs) @ split_char c b"
proof (induction "[c]" xs rule: join.induct)
  case 1 then show ?case by simp
next
  case (2 x) then show ?case by (simp add: split_char_append)
next
  case (3 x y ys)
  then show ?case by (simp add: split_char_append)
qed

lemma split_char_join_pad:
  "\<forall>x\<in>set xs. c \<notin> set x \<Longrightarrow> split_char c (join [c] xs) = (if xs = [] then [[]] else xs)"
  by (cases "xs = []") (simp_all add: split_char_join)

lemma nl_free_Nil [simp]: "nl_free []"
  by (simp add: nl_free_def)

lemma nl_free_Cons [simp]: "nl_free (x # s) = (x \<noteq> CHR ''\<newline>'' \<and> nl_free s)"
  by (auto simp: nl_free_def)

lemma nl_free_append [simp]: "nl_free (a @ b) = (nl_free a \<and> nl_free b)"
  by (auto simp: nl_free_def)

lemma nl_free_join: "nl_free sep \<Longrightarrow> \<forall>x\<in>set xs. nl_free x \<Longrightarrow> nl_free (join sep xs)"
  by (induction sep xs rule: join.induct) auto

lemma renders_nl_freeD: "renders_nl_free v \<Longrightarrow> \<exists>s. py_format v = Inr s \<and> nl_free s"
  by (auto simp: renders_nl_free_def split: sum.splits)

section \<open>The property list\<close>

lemma format_entry_nonempty: "format_entry kv = Inr e \<Longrightarrow> e \<noteq> []"
  by (auto simp: format_entry_def split: prod.splits sum.splits)

lemma collect_entries_nonempty: "collect format_entry xs = Inr es \<Longrightarrow> \<forall>e\<in>set es. e \<noteq> []"
  by (induction xs arbitrary: es) (auto split: sum.splits dest: format_entry_nonempty)

lemma join_entries_empty_iff:
  "collect format_entry xs = Inr es \<Longrightarrow> (join '', '' es = []) = (es = [])"
  using collect_entries_nonempty [of xs es] join_nonempty [of es "'', ''"] by auto

lemma prop_list_Nil: "prop_list [] = Inr []"
  by (simp add: prop_list_def prop_entries_def)

lemma prop_list_skip: "prop_list ((''label'', v) # rest) = prop_list rest"
  by (simp add: prop_list_def prop_entries_def)

lemma prop_list_emit:
  assumes "key \<noteq> ''label''"
  shows "prop_list ((key, val) # rest) =
     (case py_format val of
        Inl e \<Rightarrow> Inl e
      | Inr s \<Rightarrow>
         (case prop_list rest of
            Inl e \<Rightarrow> Inl e
          | Inr r \<Rightarrow> Inr (''\"'' @ key @ ''\": \"'' @ s @ ''\"'' @ (if r = [] then [] else '', '' @ r))))"
proof (cases "py_format val")
  case (Inl e)
  then show ?thesis using assms by (simp add: prop_list_def prop_entries_def format_entry_def)
next
  case (Inr s)
  show ?thesis
  proof (cases "prop_entries rest")
    case (Inl e)
    with Inr show ?thesis using assms
      by (simp add: prop_list_def prop_entries_def format_entry_def)
  next
    case es: (Inr es)
    then have "(join '', '' es = []) = (es = [])"
      unfolding prop_entries_def by (rule join_entries_empty_iff)
    with Inr es show ?thesis using assms
      by (simp add: prop_list_def prop_entries_def format_entry_def join_Cons)
  qed
qed

lemma prop_list_spec: "prop_list attributes = spec_format attributes ''label''"
proof (induction attributes)
  case Nil
  show ?case by (simp add: prop_list_Nil)
next
  case (Cons kv rest)
  obtain key val where kv: "kv = (key, val)" by (cases kv)
  show ?case
  proof (cases "key = ''label''")
    case True
    with Cons kv show ?thesis by (simp add: prop_list_skip)
  next
    case False
    with Cons kv show ?thesis by (simp add: prop_list_emit cong: sum.case_cong)
  qed
qed

text \<open>
  Claim C2. For every attribute dictionary the property list of the source is the
  formatter of the specification with "label" excluded: entries in insertion order, the
  entries under the key "label" skipped, each other entry emitted as
  \<^verbatim>\<open>"key": "value"\<close> with the value converted to its text, the emitted entries joined with a
  comma and a space. In particular no emitted entry has the key "label", and the property
  list is the empty string when every key is "label", also for the empty dictionary.
\<close>

theorem property_list_formatting:
  "prop_list attributes = spec_format attributes ''label''
   \<and> (prop_entries attributes = Inr es \<longrightarrow>
        prop_list attributes = Inr (join '', '' es)
        \<and> list_all2 (\<lambda>(key, val) e. key \<noteq> ''label''
              \<and> (\<exists>s. py_format val = Inr s \<and> e = ''\"'' @ key @ ''\": \"'' @ s @ ''\"''))
            (filter (\<lambda>(key, val). key \<noteq> ''label'') attributes) es)
   \<and> (list_all (\<lambda>(key, val). key = ''label'') attributes \<longrightarrow> prop_list attributes = Inr [])
   \<and> prop_list [] = Inr []"
proof (intro conjI impI)
  show "prop_list attributes = spec_format attributes ''label''" by (rule prop_list_spec)
next
  assume es: "prop_entries attributes = Inr es"
  then show "prop_list attributes = Inr (join '', '' es)" by (simp add: prop_list_def)
  let ?kept = "filter (\<lambda>(key, val). key \<noteq> ''label'') attributes"
  have a: "list_all2 (\<lambda>x e. format_entry x = Inr e) ?kept es"
    using es unfolding prop_entries_def by (rule collect_Inr_all2)
  have "\<And>x e. x \<in> set ?kept \<Longrightarrow> format_entry x = Inr e \<Longrightarrow>
          (case x of (key, val) \<Rightarrow> \<lambda>e. key \<noteq> ''label''
              \<and> (\<exists>s. py_format val = Inr s \<and> e = ''\"'' @ key @ ''\": \"'' @ s @ ''\"'')) e"
    by (auto simp: format_entry_def split: sum.splits)
  with a show "list_all2 (\<lambda>(key, val) e. key \<noteq> ''label''
              \<and> (\<exists>s. py_format val = Inr s \<and> e = ''\"'' @ key @ ''\": \"'' @ s @ ''\"'')) ?kept es"
    by (rule list.rel_mono_strong) auto
next
  assume "list_all (\<lambda>(key, val). key = ''label'') attributes"
  then have "filter (\<lambda>(key, val). key \<noteq> ''label'') attributes = []"
    by (auto simp: list_all_iff filter_empty_conv)
  then show "prop_list attributes = Inr []" by (simp add: prop_list_def prop_entries_def)
next
  show "prop_list [] = Inr []" by (rule prop_list_Nil)
qed

theorem property_list_formatting_witness:
  "prop_entries [(''label'', PStr ''Person''), (''name'', PStr ''Alice''), (''age'', PInt 2)]
     = Inr [''\"name\": \"Alice\"'', ''\"age\": \"2\"'']
   \<and> prop_list [(''label'', PStr ''Person''), (''name'', PStr ''Alice''), (''age'', PInt 2)]
     = Inr ''\"name\": \"Alice\", \"age\": \"2\"''
   \<and> list_all (\<lambda>(key, val). key = ''label'') [(''label'', PStr ''Person'')]
   \<and> prop_list [(''label'', PStr ''Person'')] = Inr []"
proof -
  have e: "prop_entries [(''label'', PStr ''Person''), (''name'', PStr ''Alice''), (''age'', PInt 2)]
     = Inr [''\"name\": \"Alice\"'', ''\"age\": \"2\"'']"
    by (simp add: prop_entries_def format_entry_def format_int_2)
  have l: "list_all (\<lambda>(key, val). key = ''label'') [(''label'', PStr ''Person'')]" by simp
  from property_list_formatting
    [of "[(''label'', PStr ''Person''), (''name'', PStr ''Alice''), (''age'', PInt 2)]"
        "[''\"name\": \"Alice\"'', ''\"age\": \"2\"'']"] e
  have "prop_list [(''label'', PStr ''Person''), (''name'', PStr ''Alice''), (''age'', PInt 2)]
     = Inr (join '', '' [''\"name\": \"Alice\"'', ''\"age\": \"2\"''])" by blast
  moreover from property_list_formatting [of "[(''label'', PStr ''Person'')]"] l
  have "prop_list [(''label'', PStr ''Person'')] = Inr []" by blast
  ultimately show ?thesis using e l by simp
qed

section \<open>Terms\<close>

lemma format_node_unfold:
  "format_node_yarspg (n, a) =
     (case prop_list a of
        Inl e \<Rightarrow> Inl e
      | Inr props \<Rightarrow>
         (case py_format n of
            Inl e \<Rightarrow> Inl e
          | Inr ns \<Rightarrow>
             (case py_format (dict_get a ''label'' (PStr ''label'')) of
                Inl e \<Rightarrow> Inl e
              | Inr l \<Rightarrow> Inr (''('' @ ns @ '' {\"'' @ l @ ''\"}['' @ props @ ''])''))))"
  by (simp add: format_node_yarspg_def)

lemma format_edge_unfold:
  "format_edge_yarspg (u, v, a) =
     (case prop_list a of
        Inl e \<Rightarrow> Inl e
      | Inr props \<Rightarrow>
         (case py_format u of
            Inl e \<Rightarrow> Inl e
          | Inr us \<Rightarrow>
             (case py_format (dict_get a ''label'' (PStr ''label'')) of
                Inl e \<Rightarrow> Inl e
              | Inr l \<Rightarrow>
                 (case py_format v of
                    Inl e \<Rightarrow> Inl e
                  | Inr vs \<Rightarrow>
                     Inr (''('' @ us @ '')-({\"'' @ l @ ''\"}['' @ props @ ''])->('' @ vs @ '')'')))))"
  by (simp add: format_edge_yarspg_def)

lemma dict_get_missing: "k \<notin> fst ` set d \<Longrightarrow> dict_get d k dflt = dflt"
  by (simp add: dict_get_def map_of_eq_None_iff [THEN iffD2])

text \<open>
  Claim C3. For a node or an edge whose attribute dictionary has no key "label", the
  label looked up is the literal string "label", and the term has \<^verbatim>\<open>{"label"}\<close> in the
  place of the label: the missing key raises nothing, the term fails only where the
  property list or an identifier fails.
\<close>

theorem missing_label_default:
  assumes "''label'' \<notin> fst ` set attributes"
  shows "dict_get attributes ''label'' (PStr ''label'') = PStr ''label''
   \<and> format_node_yarspg (node_id, attributes) =
       (case prop_list attributes of
          Inl e \<Rightarrow> Inl e
        | Inr props \<Rightarrow>
           (case py_format node_id of
              Inl e \<Rightarrow> Inl e
            | Inr n \<Rightarrow> Inr (''('' @ n @ '' {\"label\"}['' @ props @ ''])'')))
   \<and> format_edge_yarspg (u, v, attributes) =
       (case prop_list attributes of
          Inl e \<Rightarrow> Inl e
        | Inr props \<Rightarrow>
           (case py_format u of
              Inl e \<Rightarrow> Inl e
            | Inr us \<Rightarrow>
               (case py_format v of
                  Inl e \<Rightarrow> Inl e
                | Inr vs \<Rightarrow> Inr (''('' @ us @ '')-({\"label\"}['' @ props @ ''])->('' @ vs @ '')''))))"
  using dict_get_missing [OF assms, of "PStr ''label''"]
  by (simp add: format_node_yarspg_def format_edge_yarspg_def split: sum.splits)

theorem missing_label_default_witness:
  "''label'' \<notin> fst ` set [(''name'', PStr ''Bob'')]
   \<and> format_node_yarspg (PInt 2, [(''name'', PStr ''Bob'')]) = Inr ''(2 {\"label\"}[\"name\": \"Bob\"])''
   \<and> format_edge_yarspg (PInt 1, PInt 2, [(''name'', PStr ''Bob'')])
       = Inr ''(1)-({\"label\"}[\"name\": \"Bob\"])->(2)''"
proof -
  have h: "''label'' \<notin> fst ` set [(''name'', PStr ''Bob'')]" by simp
  have p: "prop_list [(''name'', PStr ''Bob'')] = Inr ''\"name\": \"Bob\"''"
    by (simp add: prop_list_def prop_entries_def format_entry_def)
  from missing_label_default [OF h, of "PInt 2" "PInt 1" "PInt 2"] h p
  show ?thesis by (simp add: format_int_1 format_int_2)
qed

lemma node_term_shape:
  "format_node_yarspg node = Inr t \<Longrightarrow> t \<noteq> [] \<and> hd t = CHR ''('' \<and> last t = CHR '')''"
  by (auto simp: format_node_yarspg_def Let_def split: prod.splits sum.splits)

lemma edge_term_shape:
  "format_edge_yarspg edge = Inr t \<Longrightarrow> t \<noteq> [] \<and> hd t = CHR ''('' \<and> last t = CHR '')''"
  by (auto simp: format_edge_yarspg_def Let_def split: prod.splits sum.splits)

subsection \<open>RDF terms\<close>

lemma rdf_node_term:
  "format_node_yarspg_rdf node =
     (case py_format (fst node) of
        Inl e \<Rightarrow> Inl e
      | Inr n \<Rightarrow> Inr (''('' @ n @ '' {\"IRI\"}[\"@value\": \"https://w3id.org/MON/person.owl#Person\"])''))"
  by (simp add: format_node_yarspg_rdf_def rdf_node_attributes_def prop_list_def
      prop_entries_def format_entry_def dict_get_def split: sum.splits)

lemma rdf_edge_term:
  "format_edge_yarspg_rdf edge =
     (case py_format (fst edge) of
        Inl e \<Rightarrow> Inl e
      | Inr us \<Rightarrow>
         (case py_format (fst (snd edge)) of
            Inl e \<Rightarrow> Inl e
          | Inr vs \<Rightarrow>
             Inr (''('' @ us @ '')-({\"IRI\"}[\"@value\": \"https://w3id.org/MON/person.owl#friendOf\"])->('' @ vs @ '')'')))"
  by (simp add: format_edge_yarspg_rdf_def rdf_edge_attributes_def prop_list_def
      prop_entries_def format_entry_def dict_get_def split: sum.splits)





lemma rdf_node_shape:
  assumes "renders_nl_free (fst node)"
  shows "\<exists>t. format_node_yarspg_rdf node = Inr (CHR ''('' # t) \<and> nl_free (CHR ''('' # t)"
  using renders_nl_freeD [OF assms] by (auto simp: rdf_node_term)

lemma rdf_edge_shape:
  assumes "renders_nl_free (fst edge)" "renders_nl_free (fst (snd edge))"
  shows "\<exists>t. format_edge_yarspg_rdf edge = Inr (CHR ''('' # t) \<and> nl_free (CHR ''('' # t)"
  using renders_nl_freeD [OF assms(1)] renders_nl_freeD [OF assms(2)]
  by (auto simp: rdf_edge_term)



section \<open>Lines of the documents\<close>

lemma digit_nl_free: "k < 10 \<Longrightarrow> ''0123456789'' ! k \<noteq> CHR ''\<newline>''"
proof -
  assume "k < 10"
  then have "''0123456789'' ! k \<in> set ''0123456789''" by (intro nth_mem) simp
  then show ?thesis by auto
qed

lemma str_nat_nl_free: "nl_free (str_nat n)"
proof (induction n rule: str_nat.induct)
  case (1 n)
  show ?case
  proof (cases "n < 10")
    case True
    then show ?thesis by (simp add: str_nat.simps [of n] digit_nl_free)
  next
    case False
    with 1 show ?thesis by (simp add: str_nat.simps [of n] digit_nl_free)
  qed
qed

lemma renders_nl_free_PInt: "\<bar>i\<bar> < 10 ^ int_max_str_digits \<Longrightarrow> renders_nl_free (PInt i)"
  by (simp add: renders_nl_free_def format_int_def str_int_def str_nat_nl_free)

lemma renders_nl_free_PBool: "renders_nl_free (PBool b)"
  by (simp add: renders_nl_free_def)

lemma format_entry_nl_free:
  assumes "nl_free key" "renders_nl_free v"
  shows "\<exists>e. format_entry (key, v) = Inr e \<and> nl_free e"
  using assms renders_nl_freeD [of v] by (auto simp: format_entry_def)

lemma prop_list_nl_free:
  assumes "attrs_nl_free a"
  shows "\<exists>p. prop_list a = Inr p \<and> nl_free p"
proof -
  have "\<forall>x\<in>set (filter (\<lambda>(key, val). key \<noteq> ''label'') a). \<exists>e. format_entry x = Inr e \<and> nl_free e"
    using assms format_entry_nl_free by (auto simp: attrs_nl_free_def list_all_iff)
  then obtain es where es: "prop_entries a = Inr es" "\<forall>e\<in>set es. nl_free e"
    unfolding prop_entries_def using collect_total by blast
  then have "nl_free (join '', '' es)" by (intro nl_free_join) simp_all
  with es show ?thesis by (simp add: prop_list_def)
qed

lemma label_nl_free:
  assumes "attrs_nl_free a"
  shows "renders_nl_free (dict_get a ''label'' (PStr ''label''))"
proof (cases "map_of a ''label''")
  case None
  then show ?thesis by (simp add: dict_get_def renders_nl_free_def)
next
  case (Some v)
  then have "(''label'', v) \<in> set a" by (rule map_of_SomeD)
  with assms have "renders_nl_free v" by (auto simp: attrs_nl_free_def list_all_iff)
  with Some show ?thesis by (simp add: dict_get_def)
qed

lemma format_node_nl_free:
  assumes "renders_nl_free n" "attrs_nl_free a"
  shows "\<exists>t. format_node_yarspg (n, a) = Inr t \<and> nl_free t"
proof -
  obtain p where p: "prop_list a = Inr p" "nl_free p"
    using prop_list_nl_free [OF assms(2)] by blast
  obtain ns where ns: "py_format n = Inr ns" "nl_free ns"
    using renders_nl_freeD [OF assms(1)] by blast
  obtain l where l: "py_format (dict_get a ''label'' (PStr ''label'')) = Inr l" "nl_free l"
    using renders_nl_freeD [OF label_nl_free [OF assms(2)]] by blast
  from p ns l show ?thesis by (simp add: format_node_yarspg_def)
qed

lemma format_edge_nl_free:
  assumes "renders_nl_free u" "renders_nl_free v" "attrs_nl_free a"
  shows "\<exists>t. format_edge_yarspg (u, v, a) = Inr t \<and> nl_free t"
proof -
  obtain p where p: "prop_list a = Inr p" "nl_free p"
    using prop_list_nl_free [OF assms(3)] by blast
  obtain us where us: "py_format u = Inr us" "nl_free us"
    using renders_nl_freeD [OF assms(1)] by blast
  obtain vs where vs: "py_format v = Inr vs" "nl_free vs"
    using renders_nl_freeD [OF assms(2)] by blast
  obtain l where l: "py_format (dict_get a ''label'' (PStr ''label'')) = Inr l" "nl_free l"
    using renders_nl_freeD [OF label_nl_free [OF assms(3)]] by blast
  from p us vs l show ?thesis by (simp add: format_edge_yarspg_def)
qed

lemma graph_nl_free_scenario: "graph_nl_free scenario"
  by (simp add: graph_nl_free_def scenario_def attrs_nl_free_def renders_nl_free_def
      format_int_1 format_int_2)

lemma ids_nl_free_scenario: "ids_nl_free scenario"
  by (simp add: ids_nl_free_def scenario_def renders_nl_free_def format_int_1 format_int_2)

text \<open>
  Claim C5, as amended. For every graph with at least one node or edge whose identifiers,
  attribute keys and attribute values are rendered without a newline character, the
  "yarspg" document, split at newlines, has exactly as many lines as the graph has nodes
  and edges: line i is the term of node i, in the order of the nodes, and the terms of
  the edges follow in the order of the edges; there is no other line. (For the empty graph
  the document is the empty string, which splits into one empty line; a newline inside a
  value adds lines.)
\<close>

theorem yarspg_lines:
  assumes "graph_nl_free g" and "nodes g \<noteq> [] \<or> edges g \<noteq> []"
  shows "\<exists>out. to_format lib g ''yarspg'' = Inr out
           \<and> length (split_lines out) = length (nodes g) + length (edges g)
           \<and> (\<forall>i < length (nodes g). format_node_yarspg (nodes g ! i) = Inr (split_lines out ! i))
           \<and> (\<forall>j < length (edges g).
                 format_edge_yarspg (edges g ! j) = Inr (split_lines out ! (length (nodes g) + j)))"
proof -
  have "\<forall>x\<in>set (nodes g). \<exists>t. format_node_yarspg x = Inr t \<and> nl_free t"
    using assms(1) format_node_nl_free by (auto simp: graph_nl_free_def list_all_iff)
  then obtain ns where ns: "collect format_node_yarspg (nodes g) = Inr ns" "\<forall>t\<in>set ns. nl_free t"
    using collect_total by blast
  have "\<forall>x\<in>set (edges g). \<exists>t. format_edge_yarspg x = Inr t \<and> nl_free t"
    using assms(1) format_edge_nl_free by (auto simp: graph_nl_free_def list_all_iff)
  then obtain es where es: "collect format_edge_yarspg (edges g) = Inr es" "\<forall>t\<in>set es. nl_free t"
    using collect_total by blast
  have n2: "list_all2 (\<lambda>x y. format_node_yarspg x = Inr y) (nodes g) ns"
    using ns(1) by (rule collect_Inr_all2)
  have e2: "list_all2 (\<lambda>x y. format_edge_yarspg x = Inr y) (edges g) es"
    using es(1) by (rule collect_Inr_all2)
  have len: "length ns = length (nodes g)" "length es = length (edges g)"
    using n2 e2 by (simp_all add: list_all2_lengthD)
  have ne: "ns @ es \<noteq> []" using assms(2) len by auto
  have out: "to_format lib g ''yarspg'' = Inr (join ''\<newline>'' (ns @ es))"
    using ns(1) es(1) by (simp add: to_format_yarspg to_yarspg_def)
  have "\<forall>t\<in>set (ns @ es). CHR ''\<newline>'' \<notin> set t"
    using ns(2) es(2) by (auto simp: nl_free_def)
  with ne have sp: "split_lines (join ''\<newline>'' (ns @ es)) = ns @ es"
    unfolding split_lines_def by (intro split_char_join) simp_all
  show ?thesis
    using out sp len all2_nth [OF n2] all2_nth [OF e2] by (simp add: nth_append)
qed

theorem yarspg_lines_witness:
  "graph_nl_free scenario \<and> nodes scenario \<noteq> []
   \<and> (\<exists>out. to_format null_codecs scenario ''yarspg'' = Inr out \<and> length (split_lines out) = 3)"
proof -
  have h: "nodes scenario \<noteq> [] \<or> edges scenario \<noteq> []" by (simp add: scenario_def)
  from yarspg_lines [OF graph_nl_free_scenario h, of null_codecs]
  show ?thesis using graph_nl_free_scenario by (auto simp: scenario_def)
qed

theorem yarspg_lines_counterexample:
  "to_format null_codecs empty_graph ''yarspg'' = Inr []
   \<and> length (split_lines []) = 1
   \<and> length (nodes empty_graph) + length (edges empty_graph) = 0
   \<and> to_format null_codecs newline_value_graph ''yarspg'' = Inr ''(1 {\"label\"}[\"name\": \"a\<newline>b\"])''
   \<and> length (split_lines ''(1 {\"label\"}[\"name\": \"a\<newline>b\"])'') = 2
   \<and> length (nodes newline_value_graph) + length (edges newline_value_graph) = 1"
  by (simp add: to_format_yarspg to_yarspg_def empty_graph_def newline_value_graph_def
      split_lines_def format_node_yarspg_def prop_list_def prop_entries_def format_entry_def
      dict_get_def format_int_1)

text \<open>
  Claim C6, as amended. For every graph whose node identifiers and edge endpoints are
  rendered without a newline character, the "yarspg-rdf" document, split at newlines, is
  the line "# Nodes", the node terms (one empty line when there is no node), the line
  "# Edges", the edge terms (one empty line when there is no edge); exactly one line is
  "# Nodes" and exactly one is "# Edges". (An identifier is printed as it is, so a string
  identifier that holds a newline and the text of a header adds such a line.)
\<close>

theorem yarspg_rdf_sections:
  assumes "ids_nl_free g"
  shows "\<exists>ns es out.
           collect format_node_yarspg_rdf (nodes g) = Inr ns
         \<and> collect format_edge_yarspg_rdf (edges g) = Inr es
         \<and> to_format lib g ''yarspg-rdf'' = Inr out
         \<and> split_lines out =
             [''# Nodes''] @ (if ns = [] then [[]] else ns) @ [''# Edges''] @ (if es = [] then [[]] else es)
         \<and> count_list (split_lines out) ''# Nodes'' = 1
         \<and> count_list (split_lines out) ''# Edges'' = 1"
proof -
  let ?T = "\<lambda>t. (\<exists>r. t = CHR ''('' # r) \<and> nl_free t"
  have "\<forall>x\<in>set (nodes g). \<exists>t. format_node_yarspg_rdf x = Inr t \<and> ?T t"
    using assms rdf_node_shape by (fastforce simp: ids_nl_free_def list_all_iff)
  then obtain ns where ns: "collect format_node_yarspg_rdf (nodes g) = Inr ns" "\<forall>t\<in>set ns. ?T t"
    using collect_total [of "nodes g" format_node_yarspg_rdf ?T] by blast
  have "\<forall>x\<in>set (edges g). \<exists>t. format_edge_yarspg_rdf x = Inr t \<and> ?T t"
    using assms rdf_edge_shape by (fastforce simp: ids_nl_free_def list_all_iff)
  then obtain es where es: "collect format_edge_yarspg_rdf (edges g) = Inr es" "\<forall>t\<in>set es. ?T t"
    using collect_total [of "edges g" format_edge_yarspg_rdf ?T] by blast
  let ?out = "''# Nodes\<newline>'' @ join ''\<newline>'' ns @ ''\<newline># Edges\<newline>'' @ join ''\<newline>'' es"
  let ?ns = "if ns = [] then [[]] else ns"
  let ?es = "if es = [] then [[]] else es"
  have out: "to_format lib g ''yarspg-rdf'' = Inr ?out"
    using ns(1) es(1) by (simp add: to_format_yarspg_rdf to_yarspg_rdf_def)
  have nfree: "\<forall>t\<in>set ns. CHR ''\<newline>'' \<notin> set t" and efree: "\<forall>t\<in>set es. CHR ''\<newline>'' \<notin> set t"
    using ns(2) es(2) by (auto simp: nl_free_def)
  have s3: "split_lines (''# Edges\<newline>'' @ join ''\<newline>'' es) = ''# Edges'' # ?es"
    unfolding split_lines_def
    using split_char_append [of "CHR ''\<newline>''" "''# Edges''" "join ''\<newline>'' es"]
      split_char_join_pad [OF efree] by simp
  have s2: "split_lines (join ''\<newline>'' ns @ ''\<newline># Edges\<newline>'' @ join ''\<newline>'' es) = ?ns @ ''# Edges'' # ?es"
    using split_char_join_then [OF nfree, of "''# Edges\<newline>'' @ join ''\<newline>'' es"] s3
    unfolding split_lines_def by simp
  have s1: "split_lines ?out = ''# Nodes'' # ?ns @ ''# Edges'' # ?es"
    using split_char_append [of "CHR ''\<newline>''" "''# Nodes''"
        "join ''\<newline>'' ns @ ''\<newline># Edges\<newline>'' @ join ''\<newline>'' es"] s2
    unfolding split_lines_def by simp
  have nn: "''# Nodes'' \<notin> set ?ns" "''# Edges'' \<notin> set ?ns" using ns(2) by auto
  have ee: "''# Nodes'' \<notin> set ?es" "''# Edges'' \<notin> set ?es" using es(2) by auto
  have c1: "count_list (split_lines ?out) ''# Nodes'' = 1"
    unfolding s1 using nn(1) ee(1) by simp
  have c2: "count_list (split_lines ?out) ''# Edges'' = 1"
    unfolding s1 using nn(2) ee(2) by simp
  show ?thesis using ns(1) es(1) out s1 c1 c2 by simp
qed

theorem yarspg_rdf_sections_witness:
  "ids_nl_free scenario
   \<and> (\<exists>out. to_format null_codecs scenario ''yarspg-rdf'' = Inr out
          \<and> count_list (split_lines out) ''# Nodes'' = 1
          \<and> count_list (split_lines out) ''# Edges'' = 1)"
  using yarspg_rdf_sections [OF ids_nl_free_scenario, of null_codecs] ids_nl_free_scenario
  by auto

theorem yarspg_rdf_sections_counterexample:
  "to_format null_codecs header_id_graph ''yarspg-rdf'' =
     Inr ''# Nodes\<newline>(x\<newline># Nodes\<newline>y {\"IRI\"}[\"@value\": \"https://w3id.org/MON/person.owl#Person\"])\<newline># Edges\<newline>''
   \<and> count_list
        (split_lines ''# Nodes\<newline>(x\<newline># Nodes\<newline>y {\"IRI\"}[\"@value\": \"https://w3id.org/MON/person.owl#Person\"])\<newline># Edges\<newline>'')
        ''# Nodes'' = 2"
  by (simp add: to_format_yarspg_rdf to_yarspg_rdf_def header_id_graph_def rdf_node_term
      split_lines_def)

text \<open>
  Claim C10. For a graph without edges the "yarspg" document is exactly the node terms
  joined with single newlines, and for a graph without nodes it is exactly the edge terms
  joined with single newlines; the document of a graph that is not empty begins with the
  opening parenthesis of its first term and ends with the closing parenthesis of its last
  term, so there is no leading or trailing separator.
\<close>

theorem yarspg_single_section:
  "(edges g = [] \<longrightarrow>
      to_format lib g ''yarspg'' =
        (case collect format_node_yarspg (nodes g) of
           Inl e \<Rightarrow> Inl e
         | Inr ns \<Rightarrow> Inr (join ''\<newline>'' ns)))
   \<and> (nodes g = [] \<longrightarrow>
      to_format lib g ''yarspg'' =
        (case collect format_edge_yarspg (edges g) of
           Inl e \<Rightarrow> Inl e
         | Inr es \<Rightarrow> Inr (join ''\<newline>'' es)))
   \<and> ((nodes g \<noteq> [] \<or> edges g \<noteq> []) \<and> to_format lib g ''yarspg'' = Inr out \<longrightarrow>
        out \<noteq> [] \<and> hd out = CHR ''('' \<and> last out = CHR '')'')"
proof (intro conjI impI)
  assume "edges g = []"
  then show "to_format lib g ''yarspg'' =
        (case collect format_node_yarspg (nodes g) of
           Inl e \<Rightarrow> Inl e
         | Inr ns \<Rightarrow> Inr (join ''\<newline>'' ns))"
    by (simp add: to_format_yarspg to_yarspg_def split: sum.splits)
next
  assume "nodes g = []"
  then show "to_format lib g ''yarspg'' =
        (case collect format_edge_yarspg (edges g) of
           Inl e \<Rightarrow> Inl e
         | Inr es \<Rightarrow> Inr (join ''\<newline>'' es))"
    by (simp add: to_format_yarspg to_yarspg_def split: sum.splits)
next
  assume a: "(nodes g \<noteq> [] \<or> edges g \<noteq> []) \<and> to_format lib g ''yarspg'' = Inr out"
  then obtain ns es where ns: "collect format_node_yarspg (nodes g) = Inr ns"
    and es: "collect format_edge_yarspg (edges g) = Inr es"
    and out: "out = join ''\<newline>'' (ns @ es)"
    by (auto simp: to_format_yarspg to_yarspg_def split: sum.splits)
  have "length ns = length (nodes g)" "length es = length (edges g)"
    using collect_Inr_all2 [OF ns] collect_Inr_all2 [OF es] by (simp_all add: list_all2_lengthD)
  with a have "ns @ es \<noteq> []" by auto
  moreover have "\<forall>t\<in>set ns. t \<noteq> [] \<and> hd t = CHR ''('' \<and> last t = CHR '')''"
    using ns by (rule collect_shape) (rule node_term_shape)
  moreover have "\<forall>t\<in>set es. t \<noteq> [] \<and> hd t = CHR ''('' \<and> last t = CHR '')''"
    using es by (rule collect_shape) (rule edge_term_shape)
  ultimately have "join ''\<newline>'' (ns @ es) \<noteq> [] \<and> hd (join ''\<newline>'' (ns @ es)) = CHR ''(''
      \<and> last (join ''\<newline>'' (ns @ es)) = CHR '')''"
    by (intro join_ends) auto
  with out show "out \<noteq> []" and "hd out = CHR ''(''" and "last out = CHR '')''" by simp_all
qed

theorem yarspg_single_section_witness:
  "edges nodes_only_graph = [] \<and> nodes nodes_only_graph \<noteq> []
   \<and> to_format null_codecs nodes_only_graph ''yarspg''
       = Inr ''(1 {\"label\"}[])\<newline>(2 {\"label\"}[\"name\": \"Bob\"])''
   \<and> nodes edges_only_graph = [] \<and> edges edges_only_graph \<noteq> []
   \<and> to_format null_codecs edges_only_graph ''yarspg''
       = Inr ''(1)-({\"label\"}[])->(2)\<newline>(2)-({\"label\"}[])->(1)''
   \<and> last ''(1)-({\"label\"}[])->(2)\<newline>(2)-({\"label\"}[])->(1)'' = CHR '')''"
proof -
  have n: "edges nodes_only_graph = []" "nodes nodes_only_graph \<noteq> []"
    by (simp_all add: nodes_only_graph_def)
  have e: "nodes edges_only_graph = []" "edges edges_only_graph \<noteq> []"
    by (simp_all add: edges_only_graph_def)
  have cn: "collect format_node_yarspg (nodes nodes_only_graph)
      = Inr [''(1 {\"label\"}[])'', ''(2 {\"label\"}[\"name\": \"Bob\"])'']"
    by (simp add: nodes_only_graph_def format_node_yarspg_def prop_list_def prop_entries_def
        format_entry_def dict_get_def format_int_1 format_int_2)
  have ce: "collect format_edge_yarspg (edges edges_only_graph)
      = Inr [''(1)-({\"label\"}[])->(2)'', ''(2)-({\"label\"}[])->(1)'']"
    by (simp add: edges_only_graph_def format_edge_yarspg_def prop_list_def prop_entries_def
        format_entry_def dict_get_def format_int_1 format_int_2)
  have o1: "to_format null_codecs nodes_only_graph ''yarspg''
       = Inr ''(1 {\"label\"}[])\<newline>(2 {\"label\"}[\"name\": \"Bob\"])''"
    using yarspg_single_section [of nodes_only_graph null_codecs] n cn by simp
  have o2: "to_format null_codecs edges_only_graph ''yarspg''
       = Inr ''(1)-({\"label\"}[])->(2)\<newline>(2)-({\"label\"}[])->(1)''"
    using yarspg_single_section [of edges_only_graph null_codecs] e ce by simp
  have "last ''(1)-({\"label\"}[])->(2)\<newline>(2)-({\"label\"}[])->(1)'' = CHR '')''"
    using yarspg_single_section [of edges_only_graph null_codecs
        "''(1)-({\"label\"}[])->(2)\<newline>(2)-({\"label\"}[])->(1)''"] e o2 by blast
  with n e o1 o2 show ?thesis by blast
qed

section \<open>Conversions that succeed and conversions that raise\<close>

lemma converts_iff: "converts v \<longleftrightarrow> (\<exists>s. py_format v = Inr s)"
  by (auto simp: converts_def split: sum.splits)

lemma format_entry_converts: "converts val \<Longrightarrow> \<exists>e. format_entry (key, val) = Inr e"
  by (auto simp: converts_iff format_entry_def)

lemma prop_list_converts:
  assumes "list_all (\<lambda>(key, val). converts val) a"
  shows "\<exists>p. prop_list a = Inr p"
proof -
  have "\<forall>x\<in>set (filter (\<lambda>(key, val). key \<noteq> ''label'') a). \<exists>e. format_entry x = Inr e \<and> True"
    using assms format_entry_converts by (auto simp: list_all_iff)
  then obtain es where "prop_entries a = Inr es"
    unfolding prop_entries_def using collect_total [of _ format_entry "\<lambda>e. True"] by blast
  then show ?thesis by (simp add: prop_list_def)
qed

lemma label_converts:
  assumes "list_all (\<lambda>(key, val). converts val) a"
  shows "converts (dict_get a ''label'' (PStr ''label''))"
proof (cases "map_of a ''label''")
  case None
  then show ?thesis by (simp add: dict_get_def converts_def)
next
  case (Some v)
  then have "(''label'', v) \<in> set a" by (rule map_of_SomeD)
  with assms have "converts v" by (auto simp: list_all_iff)
  with Some show ?thesis by (simp add: dict_get_def)
qed

lemma format_node_converts:
  assumes "converts n" "list_all (\<lambda>(key, val). converts val) a"
  shows "\<exists>t. format_node_yarspg (n, a) = Inr t"
  using prop_list_converts [OF assms(2)] label_converts [OF assms(2)] assms(1)
  by (auto simp: converts_iff format_node_yarspg_def)

lemma format_edge_converts:
  assumes "converts u" "converts v" "list_all (\<lambda>(key, val). converts val) a"
  shows "\<exists>t. format_edge_yarspg (u, v, a) = Inr t"
  using prop_list_converts [OF assms(3)] label_converts [OF assms(3)] assms(1,2)
  by (auto simp: converts_iff format_edge_yarspg_def)

lemma to_yarspg_total:
  assumes "graph_converts g"
  shows "\<exists>out. to_yarspg g = Inr out"
proof -
  have "\<forall>x\<in>set (nodes g). \<exists>t. format_node_yarspg x = Inr t \<and> True"
    using assms format_node_converts by (auto simp: graph_converts_def list_all_iff)
  then obtain ns where "collect format_node_yarspg (nodes g) = Inr ns"
    using collect_total [of _ format_node_yarspg "\<lambda>t. True"] by blast
  moreover have "\<forall>x\<in>set (edges g). \<exists>t. format_edge_yarspg x = Inr t \<and> True"
    using assms format_edge_converts by (auto simp: graph_converts_def list_all_iff)
  then obtain es where "collect format_edge_yarspg (edges g) = Inr es"
    using collect_total [of _ format_edge_yarspg "\<lambda>t. True"] by blast
  ultimately show ?thesis by (simp add: to_yarspg_def)
qed

lemma rdf_node_converts:
  "converts (fst node) \<Longrightarrow> \<exists>t. format_node_yarspg_rdf node = Inr t"
  by (auto simp: converts_iff rdf_node_term)

lemma rdf_edge_converts:
  "converts (fst edge) \<Longrightarrow> converts (fst (snd edge)) \<Longrightarrow> \<exists>t. format_edge_yarspg_rdf edge = Inr t"
  by (auto simp: converts_iff rdf_edge_term)

lemma to_yarspg_rdf_total:
  assumes "ids_convert g"
  shows "\<exists>out. to_yarspg_rdf g = Inr out"
proof -
  have "\<forall>x\<in>set (nodes g). \<exists>t. format_node_yarspg_rdf x = Inr t \<and> True"
  proof
    fix x assume x: "x \<in> set (nodes g)"
    obtain n a where xa: "x = (n, a)" by (cases x)
    with x assms have "converts n" by (auto simp: ids_convert_def list_all_iff)
    with xa show "\<exists>t. format_node_yarspg_rdf x = Inr t \<and> True"
      using rdf_node_converts [of x] by simp
  qed
  then obtain ns where ns: "collect format_node_yarspg_rdf (nodes g) = Inr ns"
    using collect_total [of "nodes g" format_node_yarspg_rdf "\<lambda>t. True"] by blast
  have "\<forall>x\<in>set (edges g). \<exists>t. format_edge_yarspg_rdf x = Inr t \<and> True"
  proof
    fix x assume x: "x \<in> set (edges g)"
    obtain u v a where xa: "x = (u, v, a)" by (cases x)
    with x assms have "converts u" "converts v" by (auto simp: ids_convert_def list_all_iff)
    with xa show "\<exists>t. format_edge_yarspg_rdf x = Inr t \<and> True"
      using rdf_edge_converts [of x] by simp
  qed
  then obtain es where es: "collect format_edge_yarspg_rdf (edges g) = Inr es"
    using collect_total [of "edges g" format_edge_yarspg_rdf "\<lambda>t. True"] by blast
  from ns es show ?thesis by (simp add: to_yarspg_rdf_def)
qed

lemma prop_list_fails:
  assumes "(key, val) \<in> set a" "key \<noteq> ''label''" "py_format val = Inl e"
  shows "\<exists>e'. prop_list a = Inl e'"
proof -
  let ?kept = "filter (\<lambda>(key, val). key \<noteq> ''label'') a"
  have m: "(key, val) \<in> set ?kept" using assms(1,2) by simp
  have f: "format_entry (key, val) = Inl e" using assms(3) by (simp add: format_entry_def)
  obtain e' where "collect format_entry ?kept = Inl e'"
    using collect_fails [of "(key, val)" ?kept format_entry e, OF m f] ..
  then show ?thesis by (simp add: prop_list_def prop_entries_def)
qed

lemma label_fails:
  assumes "distinct (map fst a)" "(''label'', val) \<in> set a"
  shows "dict_get a ''label'' dflt = val"
  using assms by (simp add: dict_get_def)

lemma format_node_fails:
  assumes "distinct (map fst a)" "(key, val) \<in> set a" "py_format val = Inl e"
  shows "\<exists>e'. format_node_yarspg (n, a) = Inl e'"
proof (cases "key = ''label''")
  case True
  with assms have l: "py_format (dict_get a ''label'' (PStr ''label'')) = Inl e"
    by (simp add: label_fails)
  show ?thesis
  proof (cases "prop_list a")
    case Inl then show ?thesis by (simp add: format_node_unfold)
  next
    case p: (Inr props)
    show ?thesis
    proof (cases "py_format n")
      case Inl with p show ?thesis by (simp add: format_node_unfold)
    next
      case Inr with p l show ?thesis by (simp add: format_node_unfold)
    qed
  qed
next
  case False
  with assms prop_list_fails obtain e' where "prop_list a = Inl e'" by blast
  then show ?thesis by (simp add: format_node_unfold)
qed

lemma format_edge_fails:
  assumes "distinct (map fst a)" "(key, val) \<in> set a" "py_format val = Inl e"
  shows "\<exists>e'. format_edge_yarspg (u, v, a) = Inl e'"
proof (cases "key = ''label''")
  case True
  with assms have l: "py_format (dict_get a ''label'' (PStr ''label'')) = Inl e"
    by (simp add: label_fails)
  show ?thesis
  proof (cases "prop_list a")
    case Inl then show ?thesis by (simp add: format_edge_unfold)
  next
    case p: (Inr props)
    show ?thesis
    proof (cases "py_format u")
      case Inl with p show ?thesis by (simp add: format_edge_unfold)
    next
      case Inr with p l show ?thesis by (simp add: format_edge_unfold)
    qed
  qed
next
  case False
  with assms prop_list_fails obtain e' where "prop_list a = Inl e'" by blast
  then show ?thesis by (simp add: format_edge_unfold)
qed

lemma to_yarspg_node_fails:
  assumes "x \<in> set (nodes g)" "format_node_yarspg x = Inl e"
  shows "\<exists>e'. to_yarspg g = Inl e'"
  using collect_fails [of x "nodes g" format_node_yarspg e] assms by (auto simp: to_yarspg_def)

lemma to_yarspg_edge_fails:
  assumes "x \<in> set (edges g)" "format_edge_yarspg x = Inl e"
  shows "\<exists>e'. to_yarspg g = Inl e'"
  using collect_fails [of x "edges g" format_edge_yarspg e] assms
  by (auto simp: to_yarspg_def split: sum.splits)

lemma prop_list_error:
  assumes "prop_list a = Inl e"
  shows "\<exists>val\<in>set (map snd a). py_format val = Inl e"
proof -
  from assms have "prop_entries a = Inl e" by (simp add: prop_list_def split: sum.splits)
  then obtain x where "x \<in> set (filter (\<lambda>(key, val). key \<noteq> ''label'') a)" "format_entry x = Inl e"
    unfolding prop_entries_def using collect_Inl_elem by blast
  then show ?thesis by (force simp: format_entry_def split: prod.splits sum.splits)
qed

lemma label_error:
  assumes "py_format (dict_get a ''label'' (PStr ''label'')) = Inl e"
  shows "\<exists>val\<in>set (map snd a). py_format val = Inl e"
proof (cases "map_of a ''label''")
  case None
  with assms show ?thesis by (simp add: dict_get_def)
next
  case (Some v)
  then have "(''label'', v) \<in> set a" by (rule map_of_SomeD)
  moreover from Some assms have "py_format v = Inl e" by (simp add: dict_get_def)
  ultimately show ?thesis by force
qed

lemma format_node_error:
  assumes "format_node_yarspg (n, a) = Inl e"
  shows "\<exists>x\<in>set (n # map snd a). py_format x = Inl e"
  using assms prop_list_error [of a e] label_error [of a e]
  by (auto simp: format_node_unfold split: sum.splits)

lemma format_edge_error:
  assumes "format_edge_yarspg (u, v, a) = Inl e"
  shows "\<exists>x\<in>set (u # v # map snd a). py_format x = Inl e"
  using assms prop_list_error [of a e] label_error [of a e]
  by (auto simp: format_edge_unfold split: sum.splits)

lemma graph_values_node:
  assumes "(n, a) \<in> set (nodes g)" "y \<in> set (n # map snd a)"
  shows "y \<in> set (graph_values g)"
proof -
  have "y \<in> set ((\<lambda>(n, a). n # map snd a) (n, a))" using assms(2) by simp
  with assms(1) have "y \<in> set (concat (map (\<lambda>(n, a). n # map snd a) (nodes g)))"
    unfolding set_concat set_map by blast
  then show ?thesis by (simp add: graph_values_def)
qed

lemma graph_values_edge:
  assumes "(u, v, a) \<in> set (edges g)" "y \<in> set (u # v # map snd a)"
  shows "y \<in> set (graph_values g)"
proof -
  have "y \<in> set ((\<lambda>(u, v, a). u # v # map snd a) (u, v, a))" using assms(2) by simp
  with assms(1) have "y \<in> set (concat (map (\<lambda>(u, v, a). u # v # map snd a) (edges g)))"
    unfolding set_concat set_map by blast
  then show ?thesis by (simp add: graph_values_def)
qed

lemma to_yarspg_error:
  assumes "to_yarspg g = Inl e"
  shows "\<exists>x\<in>set (graph_values g). py_format x = Inl e"
proof -
  from assms consider "collect format_node_yarspg (nodes g) = Inl e"
    | "collect format_edge_yarspg (edges g) = Inl e"
    by (auto simp: to_yarspg_def split: sum.splits)
  then show ?thesis
  proof cases
    case 1
    then obtain x where x: "x \<in> set (nodes g)" "format_node_yarspg x = Inl e"
      using collect_Inl_elem by blast
    obtain n a where "x = (n, a)" by (cases x)
    with x format_node_error [of n a e] obtain y where "y \<in> set (n # map snd a)" "py_format y = Inl e"
      by blast
    with x \<open>x = (n, a)\<close> graph_values_node [of n a g y] show ?thesis by blast
  next
    case 2
    then obtain x where x: "x \<in> set (edges g)" "format_edge_yarspg x = Inl e"
      using collect_Inl_elem by blast
    obtain u v a where "x = (u, v, a)" by (cases x)
    with x format_edge_error [of u v a e] obtain y where "y \<in> set (u # v # map snd a)" "py_format y = Inl e"
      by blast
    with x \<open>x = (u, v, a)\<close> graph_values_edge [of u v a g y] show ?thesis by blast
  qed
qed

lemma format_int_limit: "format_int (10 ^ int_max_str_digits) = Inl ValueError"
  by (rule format_int_over_limit) simp

lemma big_int_yarspg: "to_yarspg (big_int_graph key) = Inl ValueError"
  by (cases "key = ''label''")
    (simp_all add: to_yarspg_def big_int_graph_def format_node_yarspg_def prop_list_def
      prop_entries_def format_entry_def dict_get_def format_int_1 format_int_limit)

lemma failing_value_yarspg:
  "to_yarspg (failing_value_graph key) = Inl (Raised ''boom'')"
  by (cases "key = ''label''")
    (simp_all add: to_yarspg_def failing_value_graph_def format_node_yarspg_def prop_list_def
      prop_entries_def format_entry_def dict_get_def format_int_1)

text \<open>
  Claim C9, as amended. The conversion of a string, a float or a boolean returns a text,
  and the conversion of an integer returns a text exactly when the integer has at most
  4300 digits; a longer integer raises \<^verbatim>\<open>ValueError\<close>. "yarspg" rendering succeeds on
  every graph whose identifiers and attribute values all convert, and "yarspg-rdf" rendering succeeds on every graph whose identifiers
  convert (it never converts an attribute value). If the conversion of some attribute
  value raises, "yarspg" rendering fails; and whenever "yarspg" rendering fails, its error
  is the exception raised by the conversion of one of the graph's identifiers or attribute
  values, passed on as it is: nothing adds the key to it.
\<close>

theorem conversion_totality_and_failure:
  "converts (PStr s) \<and> converts (PFloat r) \<and> converts (PBool b)
   \<and> (converts (PInt i) \<longleftrightarrow> \<bar>i\<bar> < 10 ^ int_max_str_digits)
   \<and> (10 ^ int_max_str_digits \<le> \<bar>i\<bar> \<longrightarrow> py_format (PInt i) = Inl ValueError)
   \<and> (graph_converts g \<longrightarrow> (\<exists>out. to_format lib g ''yarspg'' = Inr out))
   \<and> (ids_convert g \<longrightarrow> (\<exists>out. to_format lib g ''yarspg-rdf'' = Inr out))
   \<and> ((n, a) \<in> set (nodes g) \<and> distinct (map fst a) \<and> (key, val) \<in> set a
        \<and> py_format val = Inl e \<longrightarrow> (\<exists>e'. to_format lib g ''yarspg'' = Inl e'))
   \<and> ((u, v, a) \<in> set (edges g) \<and> distinct (map fst a) \<and> (key, val) \<in> set a
        \<and> py_format val = Inl e \<longrightarrow> (\<exists>e'. to_format lib g ''yarspg'' = Inl e'))
   \<and> (to_format lib g ''yarspg'' = Inl e' \<longrightarrow>
        (\<exists>x\<in>set (graph_values g). py_format x = Inl e'))"
proof (intro conjI impI)
  show "converts (PStr s)" "converts (PFloat r)" "converts (PBool b)"
    by (simp_all add: converts_def)
next
  show "converts (PInt i) \<longleftrightarrow> \<bar>i\<bar> < 10 ^ int_max_str_digits"
    by (simp add: converts_def format_int_def)
next
  assume "10 ^ int_max_str_digits \<le> \<bar>i\<bar>"
  then show "py_format (PInt i) = Inl ValueError"
    by (simp add: format_int_over_limit)
next
  assume "graph_converts g"
  then show "\<exists>out. to_format lib g ''yarspg'' = Inr out"
    by (simp add: to_format_yarspg to_yarspg_total)
next
  assume "ids_convert g"
  then show "\<exists>out. to_format lib g ''yarspg-rdf'' = Inr out"
    by (simp add: to_format_yarspg_rdf to_yarspg_rdf_total)
next
  assume h: "(n, a) \<in> set (nodes g) \<and> distinct (map fst a) \<and> (key, val) \<in> set a
        \<and> py_format val = Inl e"
  then obtain e1 where "format_node_yarspg (n, a) = Inl e1"
    using format_node_fails by blast
  with h show "\<exists>e'. to_format lib g ''yarspg'' = Inl e'"
    using to_yarspg_node_fails by (simp add: to_format_yarspg) blast
next
  assume h: "(u, v, a) \<in> set (edges g) \<and> distinct (map fst a) \<and> (key, val) \<in> set a
        \<and> py_format val = Inl e"
  then obtain e1 where "format_edge_yarspg (u, v, a) = Inl e1"
    using format_edge_fails by blast
  with h show "\<exists>e'. to_format lib g ''yarspg'' = Inl e'"
    using to_yarspg_edge_fails by (simp add: to_format_yarspg) blast
next
  assume "to_format lib g ''yarspg'' = Inl e'"
  then show "\<exists>x\<in>set (graph_values g). py_format x = Inl e'"
    by (simp add: to_format_yarspg to_yarspg_error)
qed

theorem conversion_totality_and_failure_witness:
  "\<bar>1::int\<bar> < 10 ^ int_max_str_digits
   \<and> converts (PInt 1)
   \<and> (10::int) ^ int_max_str_digits \<le> \<bar>10 ^ int_max_str_digits\<bar>
   \<and> py_format (PInt (10 ^ int_max_str_digits)) = Inl ValueError
   \<and> graph_converts scenario
   \<and> (\<exists>out. to_format null_codecs scenario ''yarspg'' = Inr out)
   \<and> ids_convert scenario_other_attrs
   \<and> (\<exists>out. to_format null_codecs scenario_other_attrs ''yarspg-rdf'' = Inr out)
   \<and> (PInt 1, [(''a'', PObj (Inl (Raised ''boom'')))]) \<in> set (nodes (failing_value_graph ''a''))
   \<and> distinct (map fst [(''a'', PObj (Inl (Raised ''boom'')))])
   \<and> py_format (PObj (Inl (Raised ''boom''))) = Inl (Raised ''boom'')
   \<and> (\<exists>e'. to_format null_codecs (failing_value_graph ''a'') ''yarspg'' = Inl e')
   \<and> (PInt 1, PInt 2, [(''since'', PObj (Inl (Raised ''boom'')))]) \<in> set (edges scenario_other_attrs)
   \<and> (\<exists>e'. to_format null_codecs scenario_other_attrs ''yarspg'' = Inl e')
   \<and> to_format null_codecs (failing_value_graph ''a'') ''yarspg'' = Inl (Raised ''boom'')
   \<and> (\<exists>x\<in>set (graph_values (failing_value_graph ''a'')). py_format x = Inl (Raised ''boom''))"
proof -
  have s1: "\<bar>1::int\<bar> < 10 ^ int_max_str_digits"
    using ten_le_limit by linarith
  have b1: "(10::int) ^ int_max_str_digits \<le> \<bar>10 ^ int_max_str_digits\<bar>" by simp
  have i1: "converts (PInt 1)"
    using conversion_totality_and_failure [where i = 1] s1 by blast
  have i2: "py_format (PInt (10 ^ int_max_str_digits)) = Inl ValueError"
    using conversion_totality_and_failure [where i = "10 ^ int_max_str_digits"] b1 by blast
  have g1: "graph_converts scenario"
    by (simp add: graph_converts_def scenario_def converts_def format_int_1 format_int_2)
  have g2: "ids_convert scenario_other_attrs"
    by (simp add: ids_convert_def scenario_other_attrs_def converts_def format_int_1 format_int_2)
  have m1: "(PInt 1, [(''a'', PObj (Inl (Raised ''boom'')))]) \<in> set (nodes (failing_value_graph ''a''))"
    by (simp add: failing_value_graph_def)
  have m2: "(PInt 1, PInt 2, [(''since'', PObj (Inl (Raised ''boom'')))]) \<in> set (edges scenario_other_attrs)"
    by (simp add: scenario_other_attrs_def)
  have d: "distinct (map fst [(''a'', PObj (Inl (Raised ''boom'')))])"
    and d2: "distinct (map fst [(''since'', PObj (Inl (Raised ''boom'')))])" by simp_all
  have k1: "(''a'', PObj (Inl (Raised ''boom''))) \<in> set [(''a'', PObj (Inl (Raised ''boom'')))]"
    and k2: "(''since'', PObj (Inl (Raised ''boom''))) \<in> set [(''since'', PObj (Inl (Raised ''boom'')))]"
    by simp_all
  have p: "py_format (PObj (Inl (Raised ''boom''))) = Inl (Raised ''boom'')" by simp
  have f: "to_format null_codecs (failing_value_graph ''a'') ''yarspg'' = Inl (Raised ''boom'')"
    by (simp add: to_format_yarspg failing_value_yarspg)
  have c1: "\<exists>out. to_format null_codecs scenario ''yarspg'' = Inr out"
    using conversion_totality_and_failure [where g = scenario and lib = null_codecs] g1 by blast
  have c2: "\<exists>out. to_format null_codecs scenario_other_attrs ''yarspg-rdf'' = Inr out"
    using conversion_totality_and_failure [where g = scenario_other_attrs and lib = null_codecs] g2
    by blast
  have c3: "\<exists>e'. to_format null_codecs (failing_value_graph ''a'') ''yarspg'' = Inl e'"
    using conversion_totality_and_failure [where g = "failing_value_graph ''a''"
        and lib = null_codecs and n = "PInt 1" and a = "[(''a'', PObj (Inl (Raised ''boom'')))]"
        and key = "''a''" and val = "PObj (Inl (Raised ''boom''))" and e = "Raised ''boom''"]
      m1 d k1 p by blast
  have c4: "\<exists>e'. to_format null_codecs scenario_other_attrs ''yarspg'' = Inl e'"
    using conversion_totality_and_failure [where g = scenario_other_attrs
        and lib = null_codecs and u = "PInt 1" and v = "PInt 2"
        and a = "[(''since'', PObj (Inl (Raised ''boom'')))]"
        and key = "''since''" and val = "PObj (Inl (Raised ''boom''))" and e = "Raised ''boom''"]
      m2 d2 k2 p by blast
  have c5: "\<exists>x\<in>set (graph_values (failing_value_graph ''a'')). py_format x = Inl (Raised ''boom'')"
    using conversion_totality_and_failure [where g = "failing_value_graph ''a''"
        and lib = null_codecs and e' = "Raised ''boom''"] f by blast
  from s1 i1 b1 i2 g1 c1 g2 c2 m1 d p c3 m2 c4 f c5 show ?thesis by blast
qed

theorem conversion_failure_counterexample:
  "to_format null_codecs (big_int_graph ''a'') ''yarspg'' = Inl ValueError
   \<and> to_format null_codecs (big_int_graph ''b'') ''yarspg'' = Inl ValueError
   \<and> to_format null_codecs (failing_value_graph ''a'') ''yarspg'' = Inl (Raised ''boom'')
   \<and> to_format null_codecs (failing_value_graph ''b'') ''yarspg'' = Inl (Raised ''boom'')
   \<and> to_format null_codecs (failing_value_graph ''a'') ''yarspg-rdf'' =
       Inr ''# Nodes\<newline>(1 {\"IRI\"}[\"@value\": \"https://w3id.org/MON/person.owl#Person\"])\<newline># Edges\<newline>''"
proof (intro conjI)
  show "to_format null_codecs (big_int_graph ''a'') ''yarspg'' = Inl ValueError"
    by (simp only: to_format_yarspg big_int_yarspg)
  show "to_format null_codecs (big_int_graph ''b'') ''yarspg'' = Inl ValueError"
    by (simp only: to_format_yarspg big_int_yarspg)
  show "to_format null_codecs (failing_value_graph ''a'') ''yarspg'' = Inl (Raised ''boom'')"
    by (simp only: to_format_yarspg failing_value_yarspg)
  show "to_format null_codecs (failing_value_graph ''b'') ''yarspg'' = Inl (Raised ''boom'')"
    by (simp only: to_format_yarspg failing_value_yarspg)
  show "to_format null_codecs (failing_value_graph ''a'') ''yarspg-rdf'' =
       Inr ''# Nodes\<newline>(1 {\"IRI\"}[\"@value\": \"https://w3id.org/MON/person.owl#Person\"])\<newline># Edges\<newline>''"
    by (simp add: to_format_yarspg_rdf to_yarspg_rdf_def failing_value_graph_def rdf_node_term
        format_int_1)
qed

end
